theory Spec2Isabelle
  imports Complex_Main "HOL-Library.Log_Nat"
begin

section \<open>Catalog store\<close>

text \<open>
  One row of the table \<^verbatim>\<open>products\<close> created by \<^verbatim>\<open>init_db\<close>:
  \<^verbatim>\<open>id INTEGER PRIMARY KEY AUTOINCREMENT, name TEXT, price_cents INTEGER,
  description TEXT, image TEXT\<close>. The columns \<^verbatim>\<open>id\<close>, \<^verbatim>\<open>name\<close>,
  \<^verbatim>\<open>description\<close> and \<^verbatim>\<open>image\<close> carry the prefix \<open>row_\<close>.
  Text is a \<open>string\<close> whose characters are the code points below 256.
\<close>

record product =
  row_id :: int
  row_name :: string
  price_cents :: int
  row_description :: string
  row_image :: string

text \<open>
  The database: the rows of \<^verbatim>\<open>products\<close> in rowid order, and the counter that
  \<^verbatim>\<open>AUTOINCREMENT\<close> keeps in \<^verbatim>\<open>sqlite_sequence\<close> (the largest id ever
  assigned).
\<close>

record db =
  products :: "product list"
  seq :: int

text \<open>
  The range of an \<^verbatim>\<open>INTEGER\<close> of the database, 64 bits signed: \<^verbatim>\<open>sqlite3\<close>
  raises \<^verbatim>\<open>OverflowError\<close> when a Python integer outside it is bound to a statement.
  The handlers make this check where they bind an integer.
\<close>

definition sqlite_integer :: "int \<Rightarrow> bool" where
  "sqlite_integer i = (- (2 ^ 63) \<le> i \<and> i < 2 ^ 63)"

text \<open>\<^verbatim>\<open>db.execute("SELECT * FROM products WHERE id = ?", (pid,)).fetchone()\<close>\<close>

definition get_product :: "db \<Rightarrow> int \<Rightarrow> product option" where
  "get_product d pid = find (\<lambda>r. row_id r = pid) (products d)"

text \<open>
  \<^verbatim>\<open>INSERT INTO products(name, price_cents, description, image) VALUES (?,?,?,?)\<close>:
  the new id is one more than the largest of the counter and the ids in the table. The
  end of the integer range, where the database refuses a new id, is out of the model.
\<close>

definition db_insert :: "db \<Rightarrow> string \<Rightarrow> int \<Rightarrow> string \<Rightarrow> string \<Rightarrow> db" where
  "db_insert d n p ds im =
     (let i = fold max (map row_id (products d)) (seq d) + 1
      in \<lparr>products = products d @
            [\<lparr>row_id = i, row_name = n, price_cents = p, row_description = ds, row_image = im\<rparr>],
          seq = i\<rparr>)"

text \<open>\<^verbatim>\<open>DELETE FROM products WHERE id = ?\<close>\<close>

definition db_delete :: "db \<Rightarrow> int \<Rightarrow> db" where
  "db_delete d pid = d\<lparr>products := filter (\<lambda>r. row_id r \<noteq> pid) (products d)\<rparr>"

section \<open>Session and request state\<close>

text \<open>The messages passed to \<^verbatim>\<open>flash\<close>, in the order of the source.\<close>

datatype notice =
    AddedToCart
  | RemovedFromCart
  | FillAllFields
  | WrongPassword
  | NameRequired
  | ProductAdded
  | ProductDeleted

text \<open>
  The session holds the keys \<^verbatim>\<open>cart\<close> and \<^verbatim>\<open>is_admin\<close>, each absent
  (\<open>None\<close>) until first written, and the flashed notices. The cart is a Python dict,
  an association list in insertion order. Its keys are written by \<^verbatim>\<open>cart_add\<close> only,
  as \<^verbatim>\<open>str(pid)\<close>; the model keeps the integer \<open>pid\<close> itself, since \<^verbatim>\<open>str\<close>
  is injective on integers and the integer affinity of the column \<^verbatim>\<open>id\<close> turns the
  text back into that integer when \<^verbatim>\<open>cart_items\<close> looks it up.
\<close>

record session =
  cart :: "(int \<times> int) list option"
  is_admin :: "bool option"
  flashes :: "notice list"

text \<open>
  What a request handler reads and writes: the database, the session and the files of
  the directory \<^verbatim>\<open>static/uploads\<close> (file name to content).
\<close>

record world =
  store :: db
  sess :: session
  uploads :: "string \<rightharpoonup> string"

text \<open>\<^verbatim>\<open>session.get("cart", {})\<close>\<close>

definition session_cart :: "session \<Rightarrow> (int \<times> int) list" where
  "session_cart s = (case cart s of None \<Rightarrow> [] | Some c \<Rightarrow> c)"

text \<open>\<^verbatim>\<open>flash(msg)\<close>\<close>

definition flash :: "notice \<Rightarrow> world \<Rightarrow> world" where
  "flash n w = w\<lparr>sess := (sess w)\<lparr>flashes := flashes (sess w) @ [n]\<rparr>\<rparr>"

text \<open>\<^verbatim>\<open>session["cart"] = c\<close>\<close>

definition set_cart :: "(int \<times> int) list \<Rightarrow> world \<Rightarrow> world" where
  "set_cart c w = w\<lparr>sess := (sess w)\<lparr>cart := Some c\<rparr>\<rparr>"

subsection \<open>Dict operations\<close>

text \<open>\<^verbatim>\<open>d.get(k, default)\<close>\<close>

definition dict_get :: "('k \<times> 'v) list \<Rightarrow> 'k \<Rightarrow> 'v \<Rightarrow> 'v" where
  "dict_get d k dflt = (case map_of d k of None \<Rightarrow> dflt | Some v \<Rightarrow> v)"

text \<open>\<^verbatim>\<open>d[k] = v\<close>: an existing key keeps its place, a new key goes last.\<close>

fun dict_set :: "('k \<times> 'v) list \<Rightarrow> 'k \<Rightarrow> 'v \<Rightarrow> ('k \<times> 'v) list" where
  "dict_set [] k v = [(k, v)]"
| "dict_set ((k', v') # d) k v =
     (if k' = k then (k, v) # d else (k', v') # dict_set d k v)"

text \<open>\<^verbatim>\<open>d.pop(k, None)\<close>, the value dropped.\<close>

definition dict_pop :: "('k \<times> 'v) list \<Rightarrow> 'k \<Rightarrow> ('k \<times> 'v) list" where
  "dict_pop d k = filter (\<lambda>e. fst e \<noteq> k) d"

section \<open>Cart resolution\<close>

record line_item =
  product :: product
  qty :: int
  subtotal :: int

text \<open>
  The loop of \<^verbatim>\<open>cart_items\<close> over \<^verbatim>\<open>cart.items()\<close>, with its two accumulators
  \<^verbatim>\<open>items\<close> and \<^verbatim>\<open>total\<close> (here \<open>total_acc\<close>).
\<close>

fun cart_items_loop ::
  "db \<Rightarrow> (int \<times> int) list \<Rightarrow> line_item list \<Rightarrow> int \<Rightarrow> line_item list \<times> int" where
  "cart_items_loop d [] items total_acc = (items, total_acc)"
| "cart_items_loop d ((pid, q) # rest) items total_acc =
     (case get_product d pid of
        None \<Rightarrow> cart_items_loop d rest items total_acc
      | Some row \<Rightarrow>
          (let st = price_cents row * q
           in cart_items_loop d rest
                (items @ [\<lparr>product = row, qty = q, subtotal = st\<rparr>]) (total_acc + st)))"

definition cart_items :: "world \<Rightarrow> line_item list \<times> int" where
  "cart_items w = cart_items_loop (store w) (session_cart (sess w)) [] 0"

section \<open>Text and numbers of the Python runtime\<close>

text \<open>
  The exceptions a handler can raise: \<^verbatim>\<open>abort(404)\<close> raises \<open>NotFound\<close>, which the
  framework answers with a 404 page; the others are raised by \<^verbatim>\<open>int\<close>,
  \<^verbatim>\<open>float\<close>, \<^verbatim>\<open>sqlite3\<close> and \<^verbatim>\<open>open\<close>, and no handler of the program
  catches them.
\<close>

datatype exn = NotFound | ValueError | OverflowError | IsADirectoryError

text \<open>\<^verbatim>\<open>str.isspace\<close> on the code points below 256.\<close>

definition isspace :: "char \<Rightarrow> bool" where
  "isspace c =
     (let n = (of_char c :: nat)
      in (9 \<le> n \<and> n \<le> 13) \<or> (28 \<le> n \<and> n \<le> 32) \<or> n = 133 \<or> n = 160)"

text \<open>\<^verbatim>\<open>s.strip()\<close>\<close>

definition strip :: "string \<Rightarrow> string" where
  "strip s = rev (dropWhile isspace (rev (dropWhile isspace s)))"

text \<open>
  The white space that \<^verbatim>\<open>int\<close> and \<^verbatim>\<open>float\<close> skip at both ends of a string:
  tab to carriage return, the space, and the two white-space characters above 127, which
  the conversion first turns into spaces. The separators 28 to 31 are not skipped.
\<close>

definition num_space :: "char \<Rightarrow> bool" where
  "num_space c =
     (let n = (of_char c :: nat)
      in (9 \<le> n \<and> n \<le> 13) \<or> n = 32 \<or> n = 133 \<or> n = 160)"

definition num_strip :: "string \<Rightarrow> string" where
  "num_strip s = rev (dropWhile num_space (rev (dropWhile num_space s)))"

definition is_digit :: "char \<Rightarrow> bool" where
  "is_digit c = (let n = (of_char c :: nat) in 48 \<le> n \<and> n \<le> 57)"

definition digits_value :: "string \<Rightarrow> int" where
  "digits_value ds = fold (\<lambda>c n. 10 * n + (of_char c - 48)) ds 0"

text \<open>
  An underscore in a numeric string must follow a digit and precede a digit; the first
  argument is the previous character, a null character at the start.
\<close>

fun underscores_ok :: "char \<Rightarrow> string \<Rightarrow> bool" where
  "underscores_ok prev [] = (prev \<noteq> CHR ''_'')"
| "underscores_ok prev (c # cs) =
     (if c = CHR ''_'' then is_digit prev \<and> underscores_ok c cs
      else if prev = CHR ''_'' then is_digit c \<and> underscores_ok c cs
      else underscores_ok c cs)"

definition drop_underscores :: "string \<Rightarrow> string" where
  "drop_underscores s = filter (\<lambda>c. c \<noteq> CHR ''_'') s"

text \<open>An optional sign: whether it is a minus, and the rest.\<close>

definition split_sign :: "string \<Rightarrow> bool \<times> string" where
  "split_sign s =
     (case s of
        [] \<Rightarrow> (False, [])
      | c # r \<Rightarrow>
          if c = CHR ''-'' then (True, r)
          else if c = CHR ''+'' then (False, r)
          else (False, s))"

text \<open>
  \<^verbatim>\<open>int(s)\<close> for a string: \<open>None\<close> is \<^verbatim>\<open>ValueError\<close>. After the white space,
  an optional sign and one or more decimal digits, single underscores between digits.
  \<open>max_str_digits\<close> is the interpreter's limit on the number of digits
  (\<^verbatim>\<open>sys.get_int_max_str_digits()\<close>: 4300 by default, 0 for no limit, and no limit
  before Python 3.11).
\<close>

definition py_int :: "nat \<Rightarrow> string \<Rightarrow> int option" where
  "py_int max_str_digits s =
     (let (neg, body) = split_sign (num_strip s);
          ds = drop_underscores body
      in if ds = [] \<or> \<not> list_all is_digit ds \<or> \<not> underscores_ok (CHR 0x00) body then None
         else if 0 < max_str_digits \<and> max_str_digits < length ds then None
         else Some (if neg then - digits_value ds else digits_value ds))"

text \<open>
  A Python \<^verbatim>\<open>float\<close>, an IEEE 754 double with round to nearest, ties to even:
  a finite value is the rational number it stands for. The two zeros are one value,
  which no operation of the program tells apart.
\<close>

datatype pyfloat = Finite rat | PosInf | NegInf | NaN

definition pow2 :: "int \<Rightarrow> rat" where
  "pow2 e = (if 0 \<le> e then of_int (2 ^ nat e) else 1 / of_int (2 ^ nat (- e)))"

definition pow10 :: "int \<Rightarrow> rat" where
  "pow10 e = (if 0 \<le> e then of_int (10 ^ nat e) else 1 / of_int (10 ^ nat (- e)))"

text \<open>For \<open>0 < x\<close>, the exponent \<open>e\<close> with \<open>2 ^ e \<le> x < 2 ^ (e + 1)\<close>.\<close>

definition ilog2 :: "rat \<Rightarrow> int" where
  "ilog2 x =
     (let (p, q) = quotient_of x;
          e = bitlen p - bitlen q
      in if pow2 e \<le> x then e else e - 1)"

definition round_half_even :: "rat \<Rightarrow> int" where
  "round_half_even x =
     (let f = \<lfloor>x\<rfloor>; r = x - of_int f
      in if r < 1 / 2 then f
         else if 1 / 2 < r then f + 1
         else if even f then f else f + 1)"

text \<open>
  Rounding a rational number to the nearest double, ties to even: 53 significant bits,
  the last one worth at least \<open>2 ^ - 1074\<close>, and infinity from \<open>2 ^ 1024\<close> on.
\<close>

definition to_double :: "rat \<Rightarrow> pyfloat" where
  "to_double x =
     (if x = 0 then Finite 0
      else
        (let a = \<bar>x\<bar>;
             e = max (ilog2 a - 52) (- 1074);
             y = of_int (round_half_even (a / pow2 e)) * pow2 e
         in if pow2 1024 \<le> y then (if 0 < x then PosInf else NegInf)
            else Finite (if 0 < x then y else - y)))"

definition lower :: "char \<Rightarrow> char" where
  "lower c =
     (let n = (of_char c :: nat) in if 65 \<le> n \<and> n \<le> 90 then char_of (n + 32) else c)"

text \<open>The exponent of a decimal literal: nothing, or \<open>e\<close>, an optional sign and digits.\<close>

definition parse_exponent :: "string \<Rightarrow> int option" where
  "parse_exponent s =
     (case s of
        [] \<Rightarrow> Some 0
      | c # r \<Rightarrow>
          if c = CHR ''e'' \<or> c = CHR ''E'' then
            (let (neg, ds) = split_sign r
             in if ds = [] \<or> \<not> list_all is_digit ds then None
                else Some (if neg then - digits_value ds else digits_value ds))
          else None)"

text \<open>
  The exact value of an unsigned decimal literal: digits, an optional point and digits
  (one digit at least before or after the point), an optional exponent.
\<close>

definition parse_decimal :: "string \<Rightarrow> rat option" where
  "parse_decimal s =
     (let ip = takeWhile is_digit s;
          r1 = dropWhile is_digit s;
          (fp, r2) = (case r1 of
                        [] \<Rightarrow> ([], [])
                      | c # r \<Rightarrow>
                          if c = CHR ''.'' then (takeWhile is_digit r, dropWhile is_digit r)
                          else ([], r1))
      in if ip = [] \<and> fp = [] then None
         else (case parse_exponent r2 of
                 None \<Rightarrow> None
               | Some e \<Rightarrow>
                   Some (of_int (digits_value (ip @ fp)) * pow10 (e - int (length fp)))))"

text \<open>
  \<^verbatim>\<open>float(s)\<close> for a string: \<open>None\<close> is \<^verbatim>\<open>ValueError\<close>. After the white space and
  the underscores, an optional sign and \<^verbatim>\<open>inf\<close>, \<^verbatim>\<open>infinity\<close> or \<^verbatim>\<open>nan\<close> in
  any case, or a decimal literal, rounded to the nearest double.
\<close>

definition py_float :: "string \<Rightarrow> pyfloat option" where
  "py_float s =
     (let t = num_strip s
      in if \<not> underscores_ok (CHR 0x00) t then None
         else
           (let (neg, u) = split_sign (drop_underscores t);
                l = map lower u
            in if l = ''inf'' \<or> l = ''infinity'' then Some (if neg then NegInf else PosInf)
               else if l = ''nan'' then Some NaN
               else (case parse_decimal u of
                       None \<Rightarrow> None
                     | Some x \<Rightarrow> Some (to_double (if neg then - x else x)))))"

text \<open>\<^verbatim>\<open>x * y\<close> on floats: the exact product rounded once; it never raises.\<close>

fun float_mul :: "pyfloat \<Rightarrow> pyfloat \<Rightarrow> pyfloat" where
  "float_mul NaN _ = NaN"
| "float_mul _ NaN = NaN"
| "float_mul (Finite x) (Finite y) = to_double (x * y)"
| "float_mul (Finite x) PosInf = (if x = 0 then NaN else if 0 < x then PosInf else NegInf)"
| "float_mul (Finite x) NegInf = (if x = 0 then NaN else if 0 < x then NegInf else PosInf)"
| "float_mul PosInf (Finite y) = (if y = 0 then NaN else if 0 < y then PosInf else NegInf)"
| "float_mul NegInf (Finite y) = (if y = 0 then NaN else if 0 < y then NegInf else PosInf)"
| "float_mul PosInf PosInf = PosInf"
| "float_mul PosInf NegInf = NegInf"
| "float_mul NegInf PosInf = NegInf"
| "float_mul NegInf NegInf = PosInf"

text \<open>
  \<^verbatim>\<open>int(x)\<close> for a float: truncation toward zero, \<^verbatim>\<open>OverflowError\<close> on an
  infinity, \<^verbatim>\<open>ValueError\<close> on a NaN.
\<close>

definition float_to_int :: "pyfloat \<Rightarrow> exn + int" where
  "float_to_int f =
     (case f of
        Finite x \<Rightarrow> Inr (if 0 \<le> x then \<lfloor>x\<rfloor> else \<lceil>x\<rceil>)
      | PosInf \<Rightarrow> Inl OverflowError
      | NegInf \<Rightarrow> Inl OverflowError
      | NaN \<Rightarrow> Inl ValueError)"

section \<open>Request handlers\<close>

text \<open>The targets of \<^verbatim>\<open>url_for\<close>.\<close>

datatype endpoint = CartView | Checkout | AdminLogin | AdminProducts

text \<open>
  What a handler returns: a redirect, or a rendered template with the data passed to it
  (\<^verbatim>\<open>checkout.html\<close> with items and total, \<^verbatim>\<open>order_success.html\<close> with order id
  and total).
\<close>

datatype response =
    Redirect endpoint
  | CheckoutForm "line_item list" int
  | OrderSuccess int int

datatype http_method = GET | POST

text \<open>\<^verbatim>\<open>request.form.get(key, default)\<close> on a field that is absent or present.\<close>

definition form_get :: "string option \<Rightarrow> string \<Rightarrow> string" where
  "form_get field dflt = (case field of None \<Rightarrow> dflt | Some v \<Rightarrow> v)"

text \<open>
  \<^verbatim>\<open>init_db\<close>: the table exists in every \<open>db\<close>; an empty one is seeded with the
  three demo rows.
\<close>

definition demo :: "(string \<times> int \<times> string \<times> string) list" where
  "demo =
     [(''Aurvic Tee'', 1999, ''Premium cotton T-shirt with minimalist logo.'', ''tee.jpg''),
      (''Aurvic Hoodie'', 4999, ''Cozy hoodie for everyday adventures.'', ''hoodie.jpg''),
      (''Aurvic Cap'', 1499, ''Adjustable cap with embroidered monogram.'', ''cap.jpg'')]"

definition init_db :: "db \<Rightarrow> db" where
  "init_db d =
     (if length (products d) = 0
      then fold (\<lambda>(n, p, ds, im) d'. db_insert d' n p ds im) demo d
      else d)"

text \<open>
  \<^verbatim>\<open>cart_add(pid)\<close> with the form field \<^verbatim>\<open>qty\<close>; an absent field is the integer 1.
  The route takes any run of digits as \<open>pid\<close>, so the lookup can receive an integer
  that the database refuses.
\<close>

definition cart_add ::
  "nat \<Rightarrow> int \<Rightarrow> string option \<Rightarrow> world \<Rightarrow> (exn + response) \<times> world" where
  "cart_add max_str_digits pid qty_field w =
     (if \<not> sqlite_integer pid then (Inl OverflowError, w)
      else
        (case get_product (store w) pid of
           None \<Rightarrow> (Inl NotFound, w)
         | Some p \<Rightarrow>
             (case (case qty_field of None \<Rightarrow> Some 1 | Some s \<Rightarrow> py_int max_str_digits s) of
                None \<Rightarrow> (Inl ValueError, w)
              | Some n \<Rightarrow>
                  (let q = max 1 n;
                       c = session_cart (sess w);
                       c' = dict_set c pid (dict_get c pid 0 + q)
                   in (Inr (Redirect CartView), flash AddedToCart (set_cart c' w))))))"


text \<open>
  \<^verbatim>\<open>checkout()\<close> with the request method, the form fields \<^verbatim>\<open>name\<close>,
  \<^verbatim>\<open>email\<close> and \<^verbatim>\<open>address\<close>, and the clock reading
  \<^verbatim>\<open>int(datetime.utcnow().timestamp())\<close>.
\<close>

definition checkout ::
  "http_method \<Rightarrow> string option \<Rightarrow> string option \<Rightarrow> string option \<Rightarrow> int \<Rightarrow> world \<Rightarrow>
   (exn + response) \<times> world" where
  "checkout method name_field email_field address_field now w =
     (let (items, total_acc) = cart_items w
      in if method = POST then
           (let name = strip (form_get name_field '''');
                email = strip (form_get email_field '''');
                address = strip (form_get address_field '''')
            in if \<not> (name \<noteq> [] \<and> email \<noteq> [] \<and> address \<noteq> [])
               then (Inr (Redirect Checkout), flash FillAllFields w)
               else (Inr (OrderSuccess now total_acc), set_cart [] w))
         else (Inr (CheckoutForm items total_acc), w))"

text \<open>\<^verbatim>\<open>admin_required()\<close>: whether \<^verbatim>\<open>session.get("is_admin")\<close> is true.\<close>

definition admin_required :: "session \<Rightarrow> bool" where
  "admin_required s = (if \<not> (is_admin s = Some True) then False else True)"

text \<open>
  The upload step of \<^verbatim>\<open>admin_products_add\<close>: an upload is a file name and a content.
  \<open>secure_filename\<close> is the library's sanitiser. A sanitised name that is empty makes
  the path the uploads directory itself, and opening it for writing raises.
\<close>

definition save_image ::
  "(string \<Rightarrow> string) \<Rightarrow> (string \<times> string) option \<Rightarrow> world \<Rightarrow> exn + (string \<times> world)" where
  "save_image secure_filename image_file w =
     (case image_file of
        None \<Rightarrow> Inr ('''', w)
      | Some (filename, content) \<Rightarrow>
          if filename = [] then Inr ('''', w)
          else
            (let image_name = secure_filename filename
             in if image_name = [] then Inl IsADirectoryError
                else Inr (image_name, w\<lparr>uploads := (uploads w)(image_name \<mapsto> content)\<rparr>)))"

text \<open>
  \<^verbatim>\<open>int(float(s) * 100)\<close>, the conversion of the price field in
  \<^verbatim>\<open>admin_products_add\<close>: \<^verbatim>\<open>float\<close> may raise, the product is a float
  product with the integer 100 taken as the float 100.0, and \<^verbatim>\<open>int\<close> may raise.
\<close>

definition price_to_cents :: "string \<Rightarrow> exn + int" where
  "price_to_cents s =
     (case py_float s of
        None \<Rightarrow> Inl ValueError
      | Some f \<Rightarrow> float_to_int (float_mul f (Finite 100)))"

text \<open>
  \<^verbatim>\<open>admin_products_add()\<close> with the form fields \<^verbatim>\<open>name\<close>, \<^verbatim>\<open>price\<close> and
  \<^verbatim>\<open>description\<close> and the uploaded file \<^verbatim>\<open>image\<close>. The steps keep the order of
  the source: the price is converted first, the file is saved next, the name is checked
  after both, and the row is inserted last.
\<close>

definition admin_products_add ::
  "(string \<Rightarrow> string) \<Rightarrow> string option \<Rightarrow> string option \<Rightarrow> string option \<Rightarrow>
   (string \<times> string) option \<Rightarrow> world \<Rightarrow> (exn + response) \<times> world" where
  "admin_products_add secure_filename name_field price_field description_field image_file w =
     (if \<not> admin_required (sess w) then (Inr (Redirect AdminLogin), w)
      else
        (let name = strip (form_get name_field '''')
         in case price_to_cents (form_get price_field ''0'') of
              Inl e \<Rightarrow> (Inl e, w)
            | Inr price \<Rightarrow>
                (let description = strip (form_get description_field '''')
                 in case save_image secure_filename image_file w of
                      Inl e \<Rightarrow> (Inl e, w)
                    | Inr (image_name, w1) \<Rightarrow>
                        if name = [] then
                          (Inr (Redirect AdminProducts), flash NameRequired w1)
                        else if \<not> sqlite_integer price then (Inl OverflowError, w1)
                        else
                          (Inr (Redirect AdminProducts),
                           flash ProductAdded
                             (w1\<lparr>store :=
                                  db_insert (store w1) name price description image_name\<rparr>)))))"

definition admin_products_delete :: "int \<Rightarrow> world \<Rightarrow> (exn + response) \<times> world" where
  "admin_products_delete pid w =
     (if \<not> admin_required (sess w) then (Inr (Redirect AdminLogin), w)
      else if \<not> sqlite_integer pid then (Inl OverflowError, w)
      else (Inr (Redirect AdminProducts),
            flash ProductDeleted (w\<lparr>store := db_delete (store w) pid\<rparr>)))"

section \<open>Predicates of the specification\<close>

text \<open>Every row of the product table has a non-negative \<open>price_cents\<close>.\<close>

definition nonneg_prices :: "db \<Rightarrow> bool" where
  "nonneg_prices d = list_all (\<lambda>r. 0 \<le> price_cents r) (products d)"

section \<open>Example states\<close>

definition new_session :: session where
  "new_session = \<lparr>cart = None, is_admin = None, flashes = []\<rparr>"

definition admin_session :: session where
  "admin_session = \<lparr>cart = None, is_admin = Some True, flashes = []\<rparr>"

definition seeded_db :: db where
  "seeded_db = init_db \<lparr>products = [], seq = 0\<rparr>"

definition shop_world :: world where
  "shop_world = \<lparr>store = seeded_db, sess = new_session, uploads = Map.empty\<rparr>"

definition admin_world :: world where
  "admin_world = \<lparr>store = seeded_db, sess = admin_session, uploads = Map.empty\<rparr>"

section \<open>Properties of the number model\<close>

text \<open>
  The rounding of \<open>to_double\<close> is the one of a double: the result is a multiple of
  the unit in the last place \<open>2 ^ e\<close> by at most \<open>2 ^ 53\<close>, and no further from
  the argument than half that unit.
\<close>

lemma pow2_powi: "pow2 e = 2 powi e"
  by (simp add: pow2_def power_int_def inverse_eq_divide power_one_over)

lemma pow2_add: "pow2 (a + b) = pow2 a * pow2 b"
  by (simp add: pow2_powi power_int_add)

lemma pow2_nat: "pow2 (int n) = 2 ^ n"
  by (simp add: pow2_def)

lemma pow2_mono: "a \<le> b \<Longrightarrow> pow2 a \<le> pow2 b"
  by (simp add: pow2_powi power_int_increasing)

lemma ilog2_bounds:
  assumes "0 < x"
  shows "pow2 (ilog2 x) \<le> x \<and> x < pow2 (ilog2 x + 1)"
proof -
  obtain p q where pq: "quotient_of x = (p, q)" by (cases "quotient_of x")
  then have q: "0 < q" and x: "x = of_int p / of_int q"
    by (rule quotient_of_denom_pos, rule quotient_of_div)
  with assms have p: "0 < p" by (simp add: zero_less_divide_iff)
  define bp bq where "bp = bitlen p" and "bq = bitlen q"
  from bitlen_bounds [OF p] have p1: "2 ^ nat (bp - 1) \<le> p" and p2: "p < 2 ^ nat bp"
    by (simp_all add: bp_def)
  from bitlen_bounds [OF q] have q1: "2 ^ nat (bq - 1) \<le> q" and q2: "q < 2 ^ nat bq"
    by (simp_all add: bq_def)
  have bp1: "1 \<le> bp" using p by (simp add: bp_def bitlen_alt_def)
  have bq1: "1 \<le> bq" using q by (simp add: bq_def bitlen_alt_def)
  have P1: "pow2 (bp - 1) \<le> of_int p"
  proof -
    have "(of_int (2 ^ nat (bp - 1)) :: rat) \<le> of_int p" using p1 by (simp only: of_int_le_iff)
    with bp1 show ?thesis by (simp add: pow2_def)
  qed
  have P2: "of_int p < pow2 bp"
  proof -
    have "(of_int p :: rat) < of_int (2 ^ nat bp)" using p2 by (simp only: of_int_less_iff)
    with bp1 show ?thesis by (simp add: pow2_def)
  qed
  have Q1: "pow2 (bq - 1) \<le> of_int q"
  proof -
    have "(of_int (2 ^ nat (bq - 1)) :: rat) \<le> of_int q" using q1 by (simp only: of_int_le_iff)
    with bq1 show ?thesis by (simp add: pow2_def)
  qed
  have Q2: "of_int q < pow2 bq"
  proof -
    have "(of_int q :: rat) < of_int (2 ^ nat bq)" using q2 by (simp only: of_int_less_iff)
    with bq1 show ?thesis by (simp add: pow2_def)
  qed
  have qpos: "(0::rat) < of_int q" using q by simp
  have lo: "pow2 (bp - bq - 1) \<le> x"
  proof -
    have "pow2 (bp - bq - 1) * of_int q \<le> pow2 (bp - bq - 1) * pow2 bq"
      using Q2 pow2_def by (intro mult_left_mono) (auto simp: less_imp_le pow2_powi)
    also have "\<dots> = pow2 (bp - 1)" by (simp add: pow2_add [symmetric])
    also have "\<dots> \<le> of_int p" by (rule P1)
    finally show ?thesis using qpos by (simp add: x pos_le_divide_eq)
  qed
  have hi: "x < pow2 (bp - bq + 1)"
  proof -
    have "of_int p < pow2 bp" by (rule P2)
    also have "\<dots> = pow2 (bp - bq + 1) * pow2 (bq - 1)" by (simp add: pow2_add [symmetric])
    also have "\<dots> \<le> pow2 (bp - bq + 1) * of_int q"
      using Q1 by (intro mult_left_mono) (auto simp: pow2_powi)
    finally show ?thesis using qpos by (simp add: x pos_divide_less_eq)
  qed
  show ?thesis
  proof (cases "pow2 (bp - bq) \<le> x")
    case True
    then have "ilog2 x = bp - bq" by (simp add: ilog2_def pq bp_def bq_def)
    with True hi show ?thesis by simp
  next
    case False
    then have "ilog2 x = bp - bq - 1" by (simp add: ilog2_def pq bp_def bq_def)
    with False lo show ?thesis by simp
  qed
qed

lemma round_half_even_nearest: "\<bar>of_int (round_half_even x) - x\<bar> \<le> 1 / 2"
proof -
  have "of_int \<lfloor>x\<rfloor> \<le> x" "x < of_int \<lfloor>x\<rfloor> + 1" by linarith+
  then show ?thesis
    by (auto simp: round_half_even_def Let_def abs_le_iff)
qed

lemma round_half_even_floor: "\<lfloor>x\<rfloor> \<le> round_half_even x \<and> round_half_even x \<le> \<lfloor>x\<rfloor> + 1"
  by (auto simp: round_half_even_def Let_def)

lemma to_double_nearest:
  assumes "to_double x = Finite y" and "x \<noteq> 0"
  defines "e \<equiv> max (ilog2 \<bar>x\<bar> - 52) (- 1074)"
  shows "\<exists>n. \<bar>y\<bar> = of_int n * pow2 e \<and> 0 \<le> n \<and> n \<le> 2 ^ 53 \<and> \<bar>y - x\<bar> \<le> pow2 e / 2"
proof -
  let ?n = "round_half_even (\<bar>x\<bar> / pow2 e)"
  have pe: "0 < pow2 e" by (simp add: pow2_def)
  have ax: "0 < \<bar>x\<bar>" using assms(2) by simp
  from assms(1,2) have y: "y = (if 0 < x then of_int ?n * pow2 e else - (of_int ?n * pow2 e))"
    by (auto simp: to_double_def Let_def e_def split: if_splits)
  have n0: "0 \<le> ?n"
  proof -
    have "0 \<le> \<bar>x\<bar> / pow2 e" using pe by simp
    then have "0 \<le> \<lfloor>\<bar>x\<bar> / pow2 e\<rfloor>" by simp
    with round_half_even_floor [of "\<bar>x\<bar> / pow2 e"] show ?thesis by linarith
  qed
  have n1: "?n \<le> 2 ^ 53"
  proof -
    have "\<bar>x\<bar> < pow2 (ilog2 \<bar>x\<bar> + 1)" using ilog2_bounds [OF ax] by simp
    also have "\<dots> \<le> pow2 (e + 53)" by (rule pow2_mono) (simp add: e_def)
    also have "\<dots> = pow2 e * 2 ^ 53" using pow2_add [of e 53] pow2_nat [of 53] by simp
    finally have "\<bar>x\<bar> / pow2 e < 2 ^ 53" using pe by (simp add: pos_divide_less_eq mult.commute)
    then have "\<lfloor>\<bar>x\<bar> / pow2 e\<rfloor> < 2 ^ 53" by (simp add: floor_less_iff)
    with round_half_even_floor [of "\<bar>x\<bar> / pow2 e"] show ?thesis by linarith
  qed
  have near: "\<bar>of_int ?n * pow2 e - \<bar>x\<bar>\<bar> \<le> pow2 e / 2"
  proof -
    have "of_int ?n * pow2 e - \<bar>x\<bar> = (of_int ?n - \<bar>x\<bar> / pow2 e) * pow2 e"
      using pe by (simp add: left_diff_distrib)
    then have "\<bar>of_int ?n * pow2 e - \<bar>x\<bar>\<bar> = \<bar>of_int ?n - \<bar>x\<bar> / pow2 e\<bar> * pow2 e"
      using pe by (simp only: abs_mult abs_of_pos)
    also have "\<dots> \<le> (1 / 2) * pow2 e"
      using round_half_even_nearest [of "\<bar>x\<bar> / pow2 e"] pe
      by (intro mult_right_mono) auto
    finally show ?thesis by simp
  qed
  have "\<bar>y\<bar> = of_int ?n * pow2 e" using y n0 pe by (auto simp: abs_mult)
  moreover have "\<bar>y - x\<bar> \<le> pow2 e / 2"
  proof (cases "0 < x")
    case True
    with y near show ?thesis by simp
  next
    case False
    with assms(2) have "x < 0" by simp
    with y near show ?thesis by (simp add: abs_minus_commute add.commute)
  qed
  ultimately show ?thesis using n0 n1 by blast
qed

text \<open>Values of the conversion that the interpreter gives as well.\<close>

lemma price_to_cents_examples:
  "price_to_cents ''0.29'' = Inr 28"
  "price_to_cents ''1.15'' = Inr 114"
  "price_to_cents '' 1_0.5 '' = Inr 1050"
  "price_to_cents ''-Infinity'' = Inl OverflowError"
  "price_to_cents ''nan'' = Inl ValueError"
  "price_to_cents ''1e'' = Inl ValueError"
  by code_simp+

section \<open>Properties of cart resolution\<close>

lemma cart_items_loop_total:
  "cart_items_loop d c items total_acc = (items', total_acc') \<Longrightarrow>
   total_acc' - sum_list (map subtotal items') = total_acc - sum_list (map subtotal items)"
proof (induction d c items total_acc rule: cart_items_loop.induct)
  case (1 d items total_acc)
  then show ?case by simp
next
  case (2 d pid q rest items total_acc)
  show ?case
  proof (cases "get_product d pid")
    case None
    with 2 show ?thesis by simp
  next
    case (Some row)
    with 2 show ?thesis by (simp add: Let_def)
  qed
qed

lemma cart_items_loop_subtotal:
  "cart_items_loop d c items total_acc = (items', total_acc') \<Longrightarrow>
   \<forall>it \<in> set items. subtotal it = price_cents (product it) * qty it \<Longrightarrow>
   \<forall>it \<in> set items'. subtotal it = price_cents (product it) * qty it"
proof (induction d c items total_acc rule: cart_items_loop.induct)
  case (1 d items total_acc)
  then show ?case by simp
next
  case (2 d pid q rest items total_acc)
  show ?case
  proof (cases "get_product d pid")
    case None
    with 2 show ?thesis by simp
  next
    case (Some row)
    with 2 show ?thesis by (simp add: Let_def)
  qed
qed

text \<open>
  C3. For every cart and every catalog state, the total returned by resolving the cart
  is the sum of the subtotals of the line items returned by the same resolution, and
  each line item's subtotal is its product's \<open>price_cents\<close> times its quantity.
\<close>

theorem cart_items_total_is_sum_of_subtotals:
  "cart_items w = (items, total_acc) \<Longrightarrow>
   total_acc = sum_list (map subtotal items) \<and>
   (\<forall>it \<in> set items. subtotal it = price_cents (product it) * qty it)"
  unfolding cart_items_def
  using cart_items_loop_total [of "store w" "session_cart (sess w)" "[]" 0 items total_acc]
    cart_items_loop_subtotal [of "store w" "session_cart (sess w)" "[]" 0 items total_acc]
  by simp

theorem cart_items_total_is_sum_of_subtotals_witness:
  "cart_items (set_cart [(1, 2), (9, 1), (3, 1)] shop_world)
     = (fst (cart_items (set_cart [(1, 2), (9, 1), (3, 1)] shop_world)), 5497) \<and>
   5497 = sum_list (map subtotal
            (fst (cart_items (set_cart [(1, 2), (9, 1), (3, 1)] shop_world)))) \<and>
   map (\<lambda>it. (price_cents (product it), qty it, subtotal it))
     (fst (cart_items (set_cart [(1, 2), (9, 1), (3, 1)] shop_world)))
     = [(1999, 2, 3998), (1499, 1, 1499)]"
proof -
  let ?w = "set_cart [(1, 2), (9, 1), (3, 1)] shop_world"
  have "snd (cart_items ?w) = 5497" by code_simp
  then have h: "cart_items ?w = (fst (cart_items ?w), 5497)"
    by (metis prod.collapse)
  have "map (\<lambda>it. (price_cents (product it), qty it, subtotal it)) (fst (cart_items ?w))
      = [(1999, 2, 3998), (1499, 1, 1499)]" by code_simp
  with cart_items_total_is_sum_of_subtotals [OF h] h show ?thesis by blast
qed

subsection \<open>Dangling cart entries\<close>

lemma get_product_row_id: "get_product d k = Some r \<Longrightarrow> row_id r = k"
  by (auto simp: get_product_def find_Some_iff)

lemma cart_items_loop_found:
  "cart_items_loop d c items total_acc = (items', total_acc') \<Longrightarrow> it \<in> set items' \<Longrightarrow>
   it \<in> set items \<or> get_product d (row_id (product it)) \<noteq> None"
proof (induction d c items total_acc rule: cart_items_loop.induct)
  case (1 d items total_acc)
  then show ?case by simp
next
  case (2 d pid q rest items total_acc)
  show ?case
  proof (cases "get_product d pid")
    case None
    with 2 show ?thesis by simp
  next
    case (Some row)
    with 2 have "it \<in> set (items @ [\<lparr>product = row, qty = q, subtotal = price_cents row * q\<rparr>])
        \<or> get_product d (row_id (product it)) \<noteq> None"
      by (simp add: Let_def)
    moreover from Some have "get_product d (row_id row) \<noteq> None"
      using get_product_row_id [of d pid row] by simp
    ultimately show ?thesis by auto
  qed
qed

lemma cart_items_loop_dict_pop:
  "get_product d pid = None \<Longrightarrow>
   cart_items_loop d (dict_pop c pid) items total_acc = cart_items_loop d c items total_acc"
proof (induction d c items total_acc rule: cart_items_loop.induct)
  case (1 d items total_acc)
  then show ?case by (simp add: dict_pop_def)
next
  case (2 d k q rest items total_acc)
  then show ?case
    by (cases "get_product d k") (auto simp: dict_pop_def Let_def)
qed

lemma cart_items_loop_length:
  "length (fst (cart_items_loop d c items total_acc)) \<le> length items + length c"
proof (induction d c items total_acc rule: cart_items_loop.induct)
  case (1 d items total_acc)
  then show ?case by simp
next
  case (2 d k q rest items total_acc)
  then show ?case
    by (cases "get_product d k") (auto simp: Let_def)
qed

lemma dict_pop_shorter: "(k, v) \<in> set c \<Longrightarrow> length (dict_pop c k) < length c"
  unfolding dict_pop_def
  by (induction c) (auto simp: less_Suc_eq_le)

lemma cart_items_no_dangling:
  assumes "get_product (store w) pid = None" and "it \<in> set (fst (cart_items w))"
  shows "row_id (product it) \<noteq> pid"
proof -
  have "get_product (store w) (row_id (product it)) \<noteq> None"
    using assms(2)
      cart_items_loop_found [of "store w" "session_cart (sess w)" "[]" 0
        "fst (cart_items w)" "snd (cart_items w)" it]
    by (simp add: cart_items_def)
  with assms(1) show ?thesis by auto
qed

text \<open>
  C6. For every cart containing an entry whose product id has no row in the catalog
  (the product was deleted after being added, say), resolving the cart omits that entry
  from the line items and from the total: the resolution is that of the cart without
  the entry, no line item carries the id, and there are fewer line items than cart
  entries. \<open>cart_items\<close> is a total function with no error result: nothing is raised.
\<close>

theorem cart_items_drops_dangling_entry:
  assumes "(pid, q) \<in> set (session_cart (sess w))"
    and "get_product (store w) pid = None"
  shows "cart_items w = cart_items (set_cart (dict_pop (session_cart (sess w)) pid) w) \<and>
         (\<forall>it \<in> set (fst (cart_items w)). row_id (product it) \<noteq> pid) \<and>
         length (fst (cart_items w)) < length (session_cart (sess w))"
proof -
  let ?c = "session_cart (sess w)"
  have eq: "cart_items w = cart_items (set_cart (dict_pop ?c pid) w)"
    using assms(2)
    by (simp add: cart_items_def set_cart_def session_cart_def cart_items_loop_dict_pop)
  have "length (fst (cart_items w)) \<le> length (dict_pop ?c pid)"
    using cart_items_loop_length [of "store w" "dict_pop ?c pid" "[]" 0] assms(2)
    by (simp add: cart_items_def cart_items_loop_dict_pop)
  with dict_pop_shorter [OF assms(1)]
  have "length (fst (cart_items w)) < length ?c" by simp
  with eq cart_items_no_dangling [OF assms(2)] show ?thesis by blast
qed

text \<open>
  The witness is the scenario of the specification: the administrator's session puts
  product 3 in the cart twice, then deletes product 3 from the catalog.
\<close>

theorem cart_items_drops_dangling_entry_witness:
  "(3, 2) \<in> set (session_cart (sess
      (snd (admin_products_delete 3 (snd (cart_add 4300 3 (Some ''2'') admin_world)))))) \<and>
   get_product (store
      (snd (admin_products_delete 3 (snd (cart_add 4300 3 (Some ''2'') admin_world))))) 3
     = None \<and>
   cart_items (snd (admin_products_delete 3 (snd (cart_add 4300 3 (Some ''2'') admin_world))))
     = ([], 0)"
proof -
  let ?w = "snd (admin_products_delete 3 (snd (cart_add 4300 3 (Some ''2'') admin_world)))"
  have h1: "(3, 2) \<in> set (session_cart (sess ?w))" by code_simp
  have h2: "get_product (store ?w) 3 = None" by code_simp
  have "length (session_cart (sess ?w)) = 1" by code_simp
  moreover from cart_items_drops_dangling_entry [OF h1 h2]
  have "length (fst (cart_items ?w)) < length (session_cart (sess ?w))" by blast
  ultimately have "fst (cart_items ?w) = []" by simp
  moreover have "snd (cart_items ?w) = 0" by code_simp
  ultimately have "cart_items ?w = ([], 0)" by (metis prod.collapse)
  with h1 h2 show ?thesis by blast
qed

section \<open>Properties of the admin check\<close>

text \<open>
  C4. For every session in which the \<open>is_admin\<close> flag is not true, the admin product
  insert and the admin product delete leave the product table unchanged (with the rest
  of the state) and answer with a redirect to the login page.
\<close>

theorem admin_required_refuses:
  assumes "is_admin (sess w) \<noteq> Some True"
  shows "admin_products_add secure_filename name_field price_field description_field
           image_file w = (Inr (Redirect AdminLogin), w) \<and>
         admin_products_delete pid w = (Inr (Redirect AdminLogin), w)"
  using assms
  by (simp add: admin_products_add_def admin_products_delete_def admin_required_def)

theorem admin_required_refuses_witness:
  "is_admin (sess shop_world) \<noteq> Some True \<and>
   admin_products_add id (Some ''Mug'') (Some ''5'') None (Some (''mug.png'', ''PNG''))
     shop_world = (Inr (Redirect AdminLogin), shop_world) \<and>
   admin_products_delete 1 shop_world = (Inr (Redirect AdminLogin), shop_world)"
proof -
  have h: "is_admin (sess shop_world) \<noteq> Some True"
    by (simp add: shop_world_def new_session_def)
  from admin_required_refuses [OF h] h show ?thesis by blast
qed

section \<open>Properties of checkout\<close>

text \<open>
  C2. For every cart and every triple of checkout form fields: if any of name, email
  and address is empty after trimming white space, the submit answers with the
  validation notice and a redirect to the form and leaves the cart unchanged; if all
  three are non-empty after trimming, it sets the cart to the empty one and returns the
  order id with the total that resolving the cart gave before the clear.
\<close>

theorem checkout_submit:
  "(strip (form_get name_field '''') = [] \<or> strip (form_get email_field '''') = [] \<or>
    strip (form_get address_field '''') = [] \<longrightarrow>
      checkout POST name_field email_field address_field now w
        = (Inr (Redirect Checkout), flash FillAllFields w) \<and>
      cart (sess (flash FillAllFields w)) = cart (sess w)) \<and>
   (strip (form_get name_field '''') \<noteq> [] \<and> strip (form_get email_field '''') \<noteq> [] \<and>
    strip (form_get address_field '''') \<noteq> [] \<longrightarrow>
      checkout POST name_field email_field address_field now w
        = (Inr (OrderSuccess now (snd (cart_items w))), set_cart [] w) \<and>
      cart (sess (set_cart [] w)) = Some [])"
  by (auto simp: checkout_def flash_def set_cart_def split: prod.splits)

theorem checkout_submit_witness:
  "strip (form_get (Some '' '') '''') = [] \<and>
   checkout POST (Some ''Ann'') (Some '' '') (Some ''1 Main St'') 1700000000
       (set_cart [(1, 2)] shop_world)
     = (Inr (Redirect Checkout), flash FillAllFields (set_cart [(1, 2)] shop_world)) \<and>
   cart (sess (flash FillAllFields (set_cart [(1, 2)] shop_world))) = Some [(1, 2)] \<and>
   strip (form_get (Some ''Ann'') '''') \<noteq> [] \<and> strip (form_get (Some ''a@b.c'') '''') \<noteq> [] \<and>
   strip (form_get (Some ''1 Main St'') '''') \<noteq> [] \<and>
   checkout POST (Some ''Ann'') (Some ''a@b.c'') (Some ''1 Main St'') 1700000000
       (set_cart [(1, 2)] shop_world)
     = (Inr (OrderSuccess 1700000000 3998), set_cart [] (set_cart [(1, 2)] shop_world)) \<and>
   cart (sess (set_cart [] (set_cart [(1, 2)] shop_world))) = Some []"
proof -
  let ?w = "set_cart [(1, 2)] shop_world"
  have e: "strip (form_get (Some '' '') '''') = []" by code_simp
  have n: "strip (form_get (Some ''Ann'') '''') \<noteq> []"
    "strip (form_get (Some ''a@b.c'') '''') \<noteq> []"
    "strip (form_get (Some ''1 Main St'') '''') \<noteq> []" by code_simp+
  have t: "snd (cart_items ?w) = 3998" by code_simp
  have c: "cart (sess ?w) = Some [(1, 2)]" by (simp add: set_cart_def)
  from checkout_submit [of "Some ''Ann''" "Some '' ''" "Some ''1 Main St''" 1700000000 ?w]
    checkout_submit [of "Some ''Ann''" "Some ''a@b.c''" "Some ''1 Main St''" 1700000000 ?w]
    e n t c
  show ?thesis by simp
qed

section \<open>Properties of the cart add operation\<close>

lemma session_cart_after_add:
  "session_cart (sess (flash n (set_cart c w))) = c"
  by (simp add: flash_def set_cart_def session_cart_def)

lemma map_of_dict_set_same: "map_of (dict_set c k v) k = Some v"
  by (induction c k v rule: dict_set.induct) auto

lemma py_int_zero: "py_int m ''0'' = Some 0"
  by (auto simp: py_int_def num_strip_def num_space_def split_sign_def drop_underscores_def
      is_digit_def digits_value_def Let_def)

lemma py_int_minus_five: "py_int m ''-5'' = Some (- 5)"
  by (auto simp: py_int_def num_strip_def num_space_def split_sign_def drop_underscores_def
      is_digit_def digits_value_def Let_def)

text \<open>
  C1, as the code has it. The cart add operation validates the product id against the
  catalog at add-time: for an id (of the database's integer range) with no row the
  request is refused with \<open>NotFound\<close> (a 404) and nothing changes; for an id with a
  row and a quantity field that is absent or an integer literal, the entry is stored,
  its quantity raised by the quantity clamped to at least 1. Resolving the cart checks
  the catalog again: no line item carries an id without a row.
\<close>

theorem cart_add_checks_catalog:
  "(sqlite_integer pid \<and> get_product (store w) pid = None \<longrightarrow>
      cart_add m pid qty_field w = (Inl NotFound, w)) \<and>
   (get_product (store w) pid = None \<longrightarrow>
      (\<forall>it \<in> set (fst (cart_items w)). row_id (product it) \<noteq> pid)) \<and>
   (sqlite_integer pid \<and> get_product (store w) pid \<noteq> None \<and>
    (case qty_field of None \<Rightarrow> Some 1 | Some s \<Rightarrow> py_int m s) = Some n \<longrightarrow>
      fst (cart_add m pid qty_field w) = Inr (Redirect CartView) \<and>
      map_of (session_cart (sess (snd (cart_add m pid qty_field w)))) pid
        = Some (dict_get (session_cart (sess w)) pid 0 + max 1 n))"
  using cart_items_no_dangling [of w pid]
  by (auto simp: cart_add_def Let_def map_of_dict_set_same session_cart_after_add)

theorem cart_add_checks_catalog_witness:
  "sqlite_integer 7 \<and> sqlite_integer 2 \<and> get_product (store shop_world) 7 = None \<and>
   cart_add 4300 7 (Some ''2'') shop_world = (Inl NotFound, shop_world) \<and>
   get_product (store shop_world) 2 \<noteq> None \<and>
   fst (cart_add 4300 2 (Some ''2'') shop_world) = Inr (Redirect CartView) \<and>
   map_of (session_cart (sess (snd (cart_add 4300 2 (Some ''2'') shop_world)))) 2 = Some 2"
proof -
  have a: "get_product (store shop_world) 7 = None" by code_simp
  have p: "get_product (store shop_world) 2 \<noteq> None" by code_simp
  have q: "(case Some ''2'' of None \<Rightarrow> Some 1 | Some s \<Rightarrow> py_int 4300 s) = Some 2"
    by code_simp
  have g: "dict_get (session_cart (sess shop_world)) 2 0 + max 1 2 = (2::int)"
    by code_simp
  have i: "sqlite_integer 7" "sqlite_integer 2" by (simp_all add: sqlite_integer_def)
  from cart_add_checks_catalog [of 7 shop_world 4300 "Some ''2''"]
    cart_add_checks_catalog [of 2 shop_world 4300 "Some ''2''" 2] a p q g i
  show ?thesis by simp
qed

text \<open>
  The claim of C1 as stated fails: product id 7 has no row in the seeded catalog, and
  adding it is refused; no entry for it is stored.
\<close>

theorem cart_add_unknown_product_counterexample:
  "get_product (store shop_world) 7 = None \<and>
   fst (cart_add 4300 7 (Some ''1'') shop_world) = Inl NotFound \<and>
   map_of (session_cart (sess (snd (cart_add 4300 7 (Some ''1'') shop_world)))) 7 = None"
  by code_simp

text \<open>
  C5, as the code has it. For every product id (of the database's integer range) that
  has a row in the catalog and is not present in the cart, adding it with a quantity field that reads as zero or as a
  negative integer (\<open>0\<close> and \<open>-5\<close> are such fields) leaves that id with quantity
  exactly 1 in the cart.
\<close>

theorem cart_add_clamps_quantity:
  assumes "sqlite_integer pid" and "get_product (store w) pid = Some p"
    and "map_of (session_cart (sess w)) pid = None"
    and "py_int m s = Some n" and "n \<le> 0"
  shows "map_of (session_cart (sess (snd (cart_add m pid (Some s) w)))) pid = Some 1 \<and>
         map_of (session_cart (sess (snd (cart_add m pid (Some ''0'') w)))) pid = Some 1 \<and>
         map_of (session_cart (sess (snd (cart_add m pid (Some ''-5'') w)))) pid = Some 1"
  using assms
  by (simp add: cart_add_def Let_def map_of_dict_set_same dict_get_def
      session_cart_after_add py_int_zero py_int_minus_five)

theorem cart_add_clamps_quantity_witness:
  "sqlite_integer 1 \<and> get_product (store shop_world) 1 \<noteq> None \<and>
   map_of (session_cart (sess shop_world)) 1 = None \<and>
   py_int 4300 ''-3'' = Some (- 3) \<and>
   map_of (session_cart (sess (snd (cart_add 4300 1 (Some ''-3'') shop_world)))) 1 = Some 1 \<and>
   map_of (session_cart (sess (snd (cart_add 4300 1 (Some ''0'') shop_world)))) 1 = Some 1 \<and>
   map_of (session_cart (sess (snd (cart_add 4300 1 (Some ''-5'') shop_world)))) 1 = Some 1"
proof -
  obtain p where h1: "get_product (store shop_world) 1 = Some p"
  proof -
    have "get_product (store shop_world) 1 \<noteq> None" by code_simp
    then show ?thesis using that by auto
  qed
  have h2: "map_of (session_cart (sess shop_world)) 1 = None" by code_simp
  have h3: "py_int 4300 ''-3'' = Some (- 3)" by code_simp
  have h4: "(- 3 :: int) \<le> 0" by simp
  have h0: "sqlite_integer 1" by (simp add: sqlite_integer_def)
  from cart_add_clamps_quantity [OF h0 h1 h2 h3 h4] h0 h1 h2 h3 show ?thesis by simp
qed

text \<open>
  The claim of C5 as stated fails for an id outside the catalog: product id 7 is not
  in the cart, and after adding it with quantity 0 or -5 it has no quantity at all.
\<close>

theorem cart_add_clamp_unknown_product_counterexample:
  "map_of (session_cart (sess shop_world)) 7 = None \<and>
   map_of (session_cart (sess (snd (cart_add 4300 7 (Some ''0'') shop_world)))) 7 \<noteq> Some 1 \<and>
   map_of (session_cart (sess (snd (cart_add 4300 7 (Some ''-5'') shop_world)))) 7 \<noteq> Some 1"
  by code_simp

section \<open>Properties of the admin product insert\<close>

lemma save_image_frame:
  "save_image sf img w = Inr (im, w1) \<Longrightarrow> store w1 = store w \<and> sess w1 = sess w"
  by (auto simp: save_image_def Let_def split: option.splits prod.splits if_splits)


lemma products_db_insert:
  "map price_cents (products (db_insert d n p ds im)) = map price_cents (products d) @ [p]"
  by (simp add: db_insert_def Let_def)

lemma store_flash: "store (flash n w) = store w"
  by (simp add: flash_def)

lemma admin_products_add_inserts:
  assumes "admin_required (sess w)" and "strip (form_get name_field '''') \<noteq> []"
    and "price_to_cents (form_get price_field ''0'') = Inr c" and "sqlite_integer c"
    and "save_image secure_filename image_file w = Inr (image_name, w1)"
  shows "admin_products_add secure_filename name_field price_field description_field
           image_file w
    = (Inr (Redirect AdminProducts),
       flash ProductAdded (w1\<lparr>store := db_insert (store w) (strip (form_get name_field ''''))
          c (strip (form_get description_field '''')) image_name\<rparr>))"
  using assms save_image_frame [OF assms(5)]
  by (simp add: admin_products_add_def Let_def)

lemma admin_products_add_prices:
  assumes "admin_required (sess w)" and "strip (form_get name_field '''') \<noteq> []"
    and "price_to_cents (form_get price_field ''0'') = Inr c" and "sqlite_integer c"
    and "save_image secure_filename image_file w = Inr (image_name, w1)"
  shows "map price_cents (products (store (snd (admin_products_add secure_filename
           name_field price_field description_field image_file w))))
    = map price_cents (products (store w)) @ [c]"
  by (simp add: admin_products_add_inserts [OF assms] store_flash products_db_insert)

subsection \<open>The price conversion\<close>

lemma float_19_99: "py_float ''19.99'' = Some (Finite (5626684784446013 / 281474976710656))"
  by code_simp

lemma cents_19_99: "price_to_cents ''19.99'' = Inr 1998"
  by code_simp

lemma exact_19_99: "map_option (\<lambda>v. v * 100) (parse_decimal ''19.99'') = Some 1999"
  by code_simp

lemma float_0_5: "py_float ''0.5'' = Some (Finite (1 / 2))"
  by code_simp

lemma float_mul_0_5: "float_mul (Finite (1 / 2)) (Finite 100) = Finite 50"
  by code_simp


lemma round_half_even_nonneg: "0 \<le> x \<Longrightarrow> 0 \<le> round_half_even x"
  by (auto simp: round_half_even_def Let_def)

lemma pow2_pos: "0 < pow2 e"
  by (simp add: pow2_def)

lemma to_double_nonneg: "0 \<le> x \<Longrightarrow> to_double x = Finite y \<Longrightarrow> 0 \<le> y"
  by (auto simp: to_double_def Let_def round_half_even_nonneg pow2_pos less_imp_le
      split: if_splits)

lemma price_to_cents_nonneg:
  assumes "py_float s = Some (Finite x)" and "0 \<le> x" and "price_to_cents s = Inr c"
  shows "0 \<le> c"
proof -
  from assms(1,3) have "float_to_int (to_double (x * 100)) = Inr c"
    by (simp add: price_to_cents_def)
  then obtain y where y: "to_double (x * 100) = Finite y"
    and c: "c = (if 0 \<le> y then \<lfloor>y\<rfloor> else \<lceil>y\<rceil>)"
    by (auto simp: float_to_int_def split: pyfloat.splits)
  from assms(2) have "0 \<le> x * 100" by simp
  from to_double_nonneg [OF this y] c show ?thesis by simp
qed

text \<open>
  C10. The admin insert stores \<^verbatim>\<open>int(float(price) * 100)\<close>: for a price field that
  reads as the double \<open>x\<close>, with \<open>y\<close> the double product of \<open>x\<close> and 100, the new
  row's \<open>price_cents\<close> is \<open>y\<close> truncated toward zero. For the price string
  \<open>19.99\<close>, with exactly two decimal places, the stored \<open>price_cents\<close> is 1998, one
  less than the exact number of cents, 1999.
\<close>

theorem admin_insert_price_truncates:
  assumes "admin_required (sess w)" and "strip (form_get name_field '''') \<noteq> []"
    and "save_image secure_filename image_file w = Inr (image_name, w1)"
  shows
    "(py_float (form_get price_field ''0'') = Some (Finite x) \<and>
      float_mul (Finite x) (Finite 100) = Finite y \<and>
      sqlite_integer (if 0 \<le> y then \<lfloor>y\<rfloor> else \<lceil>y\<rceil>) \<longrightarrow>
        map price_cents (products (store (snd (admin_products_add secure_filename
          name_field price_field description_field image_file w))))
          = map price_cents (products (store w)) @ [if 0 \<le> y then \<lfloor>y\<rfloor> else \<lceil>y\<rceil>]) \<and>
     map price_cents (products (store (snd (admin_products_add secure_filename
       name_field (Some ''19.99'') description_field image_file w))))
       = map price_cents (products (store w)) @ [1998] \<and>
     map_option (\<lambda>v. v * 100) (parse_decimal ''19.99'') = Some 1999"
proof (intro conjI impI)
  assume h: "py_float (form_get price_field ''0'') = Some (Finite x) \<and>
      float_mul (Finite x) (Finite 100) = Finite y \<and>
      sqlite_integer (if 0 \<le> y then \<lfloor>y\<rfloor> else \<lceil>y\<rceil>)"
  then have "price_to_cents (form_get price_field ''0'')
      = Inr (if 0 \<le> y then \<lfloor>y\<rfloor> else \<lceil>y\<rceil>)"
    by (simp add: price_to_cents_def float_to_int_def)
  from admin_products_add_prices [OF assms(1,2) this _ assms(3)] h
  show "map price_cents (products (store (snd (admin_products_add secure_filename
          name_field price_field description_field image_file w))))
          = map price_cents (products (store w)) @ [if 0 \<le> y then \<lfloor>y\<rfloor> else \<lceil>y\<rceil>]"
    by blast
next
  have "price_to_cents (form_get (Some ''19.99'') ''0'') = Inr 1998"
    by (simp add: form_get_def cents_19_99)
  moreover have "sqlite_integer 1998" by (simp add: sqlite_integer_def)
  ultimately show "map price_cents (products (store (snd (admin_products_add secure_filename
       name_field (Some ''19.99'') description_field image_file w))))
       = map price_cents (products (store w)) @ [1998]"
    using admin_products_add_prices [OF assms(1,2) _ _ assms(3)] by blast
next
  show "map_option (\<lambda>v. v * 100) (parse_decimal ''19.99'') = Some 1999"
    by (rule exact_19_99)
qed

theorem admin_insert_price_truncates_witness:
  "admin_required (sess admin_world) \<and> strip (form_get (Some ''Mug'') '''') \<noteq> [] \<and>
   save_image id None admin_world = Inr ('''', admin_world) \<and>
   py_float (form_get (Some ''0.5'') ''0'') = Some (Finite (1 / 2)) \<and>
   float_mul (Finite (1 / 2)) (Finite 100) = Finite 50 \<and>
   sqlite_integer 50 \<and>
   map price_cents (products (store (snd (admin_products_add id (Some ''Mug'')
     (Some ''0.5'') None None admin_world)))) = [1999, 4999, 1499, 50] \<and>
   map price_cents (products (store (snd (admin_products_add id (Some ''Mug'')
     (Some ''19.99'') None None admin_world)))) = [1999, 4999, 1499, 1998]"
proof -
  have a: "admin_required (sess admin_world)" by code_simp
  have n: "strip (form_get (Some ''Mug'') '''') \<noteq> []" by code_simp
  have s: "save_image id None admin_world = Inr ('''', admin_world)"
    by (simp add: save_image_def)
  have f: "py_float (form_get (Some ''0.5'') ''0'') = Some (Finite (1 / 2))"
    by (simp add: form_get_def float_0_5)
  have m: "float_mul (Finite (1 / 2)) (Finite 100) = Finite 50" by (rule float_mul_0_5)
  have r: "sqlite_integer 50" by (simp add: sqlite_integer_def)
  have p: "map price_cents (products (store admin_world)) = [1999, 4999, 1499]" by code_simp
  from admin_insert_price_truncates [OF a n s, of "Some ''0.5''" "1 / 2" 50 None] f m r p
  have "map price_cents (products (store (snd (admin_products_add id (Some ''Mug'')
     (Some ''0.5'') None None admin_world)))) = [1999, 4999, 1499, 50] \<and>
   map price_cents (products (store (snd (admin_products_add id (Some ''Mug'')
     (Some ''19.99'') None None admin_world)))) = [1999, 4999, 1499, 1998]"
    by simp
  with a n s f m r show ?thesis by blast
qed

subsection \<open>The sign of the stored price\<close>

lemma nonneg_prices_db_insert:
  "nonneg_prices (db_insert d n p ds im) = (nonneg_prices d \<and> 0 \<le> p)"
  by (auto simp: nonneg_prices_def db_insert_def Let_def)

lemma nonneg_prices_init_db: "nonneg_prices d \<Longrightarrow> nonneg_prices (init_db d)"
  by (simp add: init_db_def demo_def nonneg_prices_db_insert)

lemma nonneg_prices_db_delete: "nonneg_prices d \<Longrightarrow> nonneg_prices (db_delete d pid)"
  by (simp add: nonneg_prices_def db_delete_def list_all_iff)

lemma nonneg_prices_admin_products_add:
  assumes "nonneg_prices (store w)"
    and "py_float (form_get price_field ''0'') = Some (Finite x)" and "0 \<le> x"
  shows "nonneg_prices (store (snd (admin_products_add secure_filename name_field
           price_field description_field image_file w)))"
proof (cases "price_to_cents (form_get price_field ''0'')")
  case (Inl e)
  with assms(1) show ?thesis by (simp add: admin_products_add_def Let_def)
next
  case (Inr c)
  from price_to_cents_nonneg [OF assms(2,3) Inr] have c: "0 \<le> c" .
  show ?thesis
  proof (cases "save_image secure_filename image_file w")
    case (Inl e)
    with Inr assms(1) show ?thesis by (simp add: admin_products_add_def Let_def)
  next
    case r: (Inr r)
    obtain im w1 where r': "r = (im, w1)" by (cases r)
    with r have "store w1 = store w" using save_image_frame by blast
    with Inr r r' c assms(1) show ?thesis
      by (simp add: admin_products_add_def Let_def store_flash nonneg_prices_db_insert)
  qed
qed

text \<open>
  C7, as the code has it. The seeded rows have a non-negative \<open>price_cents\<close>, a delete
  keeps every row's \<open>price_cents\<close> non-negative, and so does every admin insert whose
  price field reads as a non-negative number. Nothing is promised for a price field that
  reads as a negative number: the insert accepts it.
\<close>

theorem nonneg_prices_preserved:
  "(nonneg_prices d \<longrightarrow> nonneg_prices (init_db d)) \<and>
   (nonneg_prices (store w) \<longrightarrow> nonneg_prices (store (snd (admin_products_delete pid w)))) \<and>
   (nonneg_prices (store w) \<and> py_float (form_get price_field ''0'') = Some (Finite x) \<and>
    0 \<le> x \<longrightarrow>
      nonneg_prices (store (snd (admin_products_add secure_filename name_field price_field
        description_field image_file w))))"
  using nonneg_prices_init_db [of d] nonneg_prices_db_delete [of "store w" pid]
    nonneg_prices_admin_products_add [of w price_field x]
  by (auto simp: admin_products_delete_def store_flash)

theorem nonneg_prices_preserved_witness:
  "nonneg_prices \<lparr>products = [], seq = 0\<rparr> \<and>
   nonneg_prices (init_db \<lparr>products = [], seq = 0\<rparr>) \<and>
   nonneg_prices (store admin_world) \<and>
   nonneg_prices (store (snd (admin_products_delete 2 admin_world))) \<and>
   py_float (form_get (Some ''0.5'') ''0'') = Some (Finite (1 / 2)) \<and>
   nonneg_prices (store (snd (admin_products_add id (Some ''Mug'') (Some ''0.5'') None None
     admin_world)))"
proof -
  have e: "nonneg_prices \<lparr>products = [], seq = 0\<rparr>" by (simp add: nonneg_prices_def)
  have a: "nonneg_prices (store admin_world)" by code_simp
  have f: "py_float (form_get (Some ''0.5'') ''0'') = Some (Finite (1 / 2))"
    by (simp add: form_get_def float_0_5)
  from nonneg_prices_preserved [of "\<lparr>products = [], seq = 0\<rparr>" admin_world 2 "Some ''0.5''"
      "1 / 2" id "Some ''Mug''" None None] e a f
  show ?thesis by simp
qed

text \<open>
  The claim of C7 as stated fails: the authorised insert of a product priced \<open>-5\<close> is
  accepted, and the new row's \<open>price_cents\<close> is \<open>-500\<close>.
\<close>

theorem admin_insert_negative_price_counterexample:
  "fst (admin_products_add id (Some ''Mug'') (Some ''-5'') None None admin_world)
     = Inr (Redirect AdminProducts) \<and>
   map price_cents (products (store (snd (admin_products_add id (Some ''Mug'') (Some ''-5'')
     None None admin_world)))) = [1999, 4999, 1499, - 500] \<and>
   \<not> nonneg_prices (store (snd (admin_products_add id (Some ''Mug'') (Some ''-5'')
     None None admin_world)))"
  by code_simp

subsection \<open>The upload and the name check\<close>




section \<open>Failure paths\<close>







end
